theory Spec2Isabelle
  imports Complex_Main
begin

section \<open>Values and records\<close>

text \<open>
  The service of \<^verbatim>\<open>index.js\<close> keeps one JSON array of user objects in the file
  \<^verbatim>\<open>./data.json\<close>. Every handler reads the whole file, decodes it, works on the decoded
  array and, for the three writing routes, encodes the array and overwrites the file.

  \<open>'n jsval\<close> are the field values of a user object as the file holds them: the
  primitive values that \<^verbatim>\<open>JSON.stringify\<close> writes and \<^verbatim>\<open>JSON.parse\<close> reads back
  unchanged. The type \<open>'n\<close> stands for the finite Number values other than negative
  zero; floating point is not modelled, the handlers never compute with a number, they
  only compare one against the path parameter. A field the object lacks reads as
  \<open>JUndefined\<close>, which is also what encoding and decoding make of a field set to
  \<^verbatim>\<open>undefined\<close>. Objects and arrays as field values are outside the model, and so are
  an array element that is not an object and a file edited by hand to hold a number
  literal that \<^verbatim>\<open>JSON.stringify\<close> never writes (\<^verbatim>\<open>-0\<close>, \<^verbatim>\<open>1e999\<close>).
\<close>

datatype 'n jsval = JUndefined | JNull | JBool bool | JNum 'n | JStr string

text \<open>
  A value in memory can be more than the file can hold. \<^verbatim>\<open>express.json()\<close> decodes the
  request body with \<^verbatim>\<open>JSON.parse\<close>, which reads \<^verbatim>\<open>-0\<close> as negative zero and a number
  literal beyond the range of a double, such as \<^verbatim>\<open>1e999\<close>, as an infinity.
\<close>

datatype 'n memval = Plain "'n jsval" | NegZero | PosInfinity | NegInfinity

text \<open>
  What \<^verbatim>\<open>JSON.parse\<close> reads back from what \<^verbatim>\<open>JSON.stringify\<close> wrote for a field value:
  \<^verbatim>\<open>JSON.stringify\<close> writes \<^verbatim>\<open>null\<close> for a number that is not finite and \<^verbatim>\<open>0\<close> for
  negative zero.
\<close>

fun stringify_value :: "('n::zero) memval \<Rightarrow> 'n jsval" where
  "stringify_value (Plain v) = v"
| "stringify_value NegZero = JNum 0"
| "stringify_value PosInfinity = JNull"
| "stringify_value NegInfinity = JNull"

text \<open>
  A user object. Its \<^verbatim>\<open>id\<close> comes from the file or from \<^verbatim>\<open>Math.random()\<close>, which
  returns a finite number from \<open>0\<close> up to but not including \<open>1\<close>; its name and role
  are of type \<open>'v\<close>: \<open>'n jsval\<close> in the file (\<open>'n user\<close>), \<open>'n memval\<close> in memory
  (\<open>'n live_user\<close>). The field \<^verbatim>\<open>id\<close> is \<open>user_id\<close> here, \<open>id\<close> being the identity
  function of HOL.
\<close>

record ('n, 'v) user_object =
  user_id :: "'n jsval"
  name :: 'v
  role :: 'v

type_synonym 'n user = "('n, 'n jsval) user_object"

type_synonym 'n live_user = "('n, 'n memval) user_object"

text \<open>\<^verbatim>\<open>JSON.parse\<close> and \<^verbatim>\<open>JSON.stringify\<close> on one user object and on the array.\<close>

definition parse_object :: "'n user \<Rightarrow> 'n live_user" where
  "parse_object u = \<lparr>user_id = user_id u, name = Plain (name u), role = Plain (role u)\<rparr>"

definition stringify_object :: "('n::zero) live_user \<Rightarrow> 'n user" where
  "stringify_object u =
     \<lparr>user_id = user_id u, name = stringify_value (name u), role = stringify_value (role u)\<rparr>"

definition JSON_parse :: "'n user list \<Rightarrow> 'n live_user list" where
  "JSON_parse doc = map parse_object doc"

definition JSON_stringify :: "('n::zero) live_user list \<Rightarrow> 'n user list" where
  "JSON_stringify array = map stringify_object array"

text \<open>The part of \<^verbatim>\<open>req.body\<close> the handlers read: \<^verbatim>\<open>req.body.name\<close> and
  \<^verbatim>\<open>req.body.role\<close>, each \<open>Plain JUndefined\<close> when the client left it out.\<close>

record 'n req_body =
  body_name :: "'n memval"
  body_role :: "'n memval"

section \<open>The file, the console and the responses\<close>

text \<open>
  \<^verbatim>\<open>fs.readFileSync\<close> throws when the file is absent and \<^verbatim>\<open>JSON.parse\<close> throws when
  its text is not JSON. A JSON text, in the file or in a response, is represented by the
  array of \<open>'n user\<close> it spells. The world also records, in order, every text handed to
  \<^verbatim>\<open>fs.writeFileSync\<close> and every array in memory printed with \<^verbatim>\<open>console.log\<close>.
\<close>

datatype 'n stored = Absent | Malformed | Users "'n user list"

record 'n world =
  data_json :: "'n stored"
  writes :: "'n user list list"
  console :: "'n live_user list list"

datatype error = ENOENT | SyntaxError | TypeError

datatype 'n response =
    Json_users "'n user list"
  | Json_user "'n user option"
  | Ended

type_synonym 'n outcome = "(error + 'n response) \<times> 'n world"

text \<open>\<^verbatim>\<open>JSON.parse(fs.readFileSync("./data.json"))\<close>\<close>

definition read_and_parse :: "'n world \<Rightarrow> error + 'n live_user list" where
  "read_and_parse w =
     (case data_json w of
        Absent \<Rightarrow> Inl ENOENT
      | Malformed \<Rightarrow> Inl SyntaxError
      | Users doc \<Rightarrow> Inr (JSON_parse doc))"

definition writeFileSync :: "'n user list \<Rightarrow> 'n world \<Rightarrow> 'n world" where
  "writeFileSync doc w = w\<lparr>data_json := Users doc, writes := writes w @ [doc]\<rparr>"

definition console_log :: "'n live_user list \<Rightarrow> 'n world \<Rightarrow> 'n world" where
  "console_log array w = w\<lparr>console := console w @ [array]\<rparr>"

section \<open>Loose equality against the path parameter\<close>

text \<open>
  \<^verbatim>\<open>user.id == req.params.userId\<close> compares a stored value with a string. The language
  converts the string to a Number when the left side is a Number or a Boolean, compares
  strings as they are, and never equates \<^verbatim>\<open>undefined\<close> or \<^verbatim>\<open>null\<close> with a string.
  The conversion of a string to a Number is the parameter \<open>to_number\<close>; \<open>None\<close> is
  \<^verbatim>\<open>NaN\<close>, which equals nothing.
\<close>

fun loose_eq :: "(string \<Rightarrow> 'n option) \<Rightarrow> ('n::zero_neq_one) jsval \<Rightarrow> string \<Rightarrow> bool" where
  "loose_eq to_number (JNum x) s = (to_number s = Some x)"
| "loose_eq to_number (JStr t) s = (t = s)"
| "loose_eq to_number (JBool b) s = (to_number s = Some (of_bool b))"
| "loose_eq to_number JUndefined s = False"
| "loose_eq to_number JNull s = False"

text \<open>The callback \<^verbatim>\<open>(user) => user.id == req.params.userId\<close>.\<close>

definition matches ::
  "(string \<Rightarrow> 'n option) \<Rightarrow> string \<Rightarrow> ('n::zero_neq_one, 'v) user_object \<Rightarrow> bool" where
  "matches to_number userId user = loose_eq to_number (user_id user) userId"

text \<open>
  One conversion, to run the handlers on concrete requests such as \<^verbatim>\<open>GET /1\<close>:
  a string of decimal digits reads as the integer it writes, and the empty string as
  \<open>0\<close>, as in the language for values below \<open>2 ^ 53\<close>. Any other string is read
  here as \<^verbatim>\<open>NaN\<close>; the sample requests use digit strings only.
\<close>

fun digits_value :: "nat \<Rightarrow> string \<Rightarrow> nat option" where
  "digits_value acc [] = Some acc"
| "digits_value acc (c # cs) =
     (if 48 \<le> (of_char c :: nat) \<and> (of_char c :: nat) \<le> 57
      then digits_value (10 * acc + (of_char c - 48)) cs
      else None)"

definition decimal_to_number :: "string \<Rightarrow> int option" where
  "decimal_to_number s = map_option int (digits_value 0 s)"

section \<open>Array methods\<close>

text \<open>\<^verbatim>\<open>Array.prototype.find\<close> is \<^const>\<open>List.find\<close>: the first element the callback
  accepts, \<open>None\<close> for \<^verbatim>\<open>undefined\<close>.\<close>

text \<open>\<^verbatim>\<open>Array.prototype.findIndex\<close>: the index of the first element the callback accepts,
  counted from \<open>k\<close>, and \<open>-1\<close> when the scan reaches the end.\<close>

fun findIndex_from :: "int \<Rightarrow> ('a \<Rightarrow> bool) \<Rightarrow> 'a list \<Rightarrow> int" where
  "findIndex_from k P [] = - 1"
| "findIndex_from k P (x # xs) = (if P x then k else findIndex_from (k + 1) P xs)"

definition findIndex :: "('a \<Rightarrow> bool) \<Rightarrow> 'a list \<Rightarrow> int" where
  "findIndex P xs = findIndex_from 0 P xs"

text \<open>
  \<^verbatim>\<open>Array.prototype.splice(start, deleteCount)\<close> with no items to insert, as the array
  it leaves behind. A negative \<open>start\<close> counts from the end and is clamped at \<open>0\<close>; a
  \<open>start\<close> beyond the end is clamped at the length; the count is clamped to what is left.
\<close>

definition splice :: "int \<Rightarrow> int \<Rightarrow> 'a list \<Rightarrow> 'a list" where
  "splice start deleteCount xs =
     (let len = int (length xs);
          actualStart = (if start < 0 then max (len + start) 0 else min start len);
          actualDeleteCount = min (max deleteCount 0) (len - actualStart)
      in take (nat actualStart) xs @ drop (nat (actualStart + actualDeleteCount)) xs)"

text \<open>\<^verbatim>\<open>Array.prototype.push\<close> with one item.\<close>

definition push :: "'a \<Rightarrow> 'a list \<Rightarrow> 'a list" where
  "push x xs = xs @ [x]"

section \<open>Objects held by reference\<close>

text \<open>
  The update route changes an object through a second reference to it. There the decoded
  array is a list of references into a heap of objects: \<^verbatim>\<open>JSON.parse\<close> allocates one
  fresh object per element, so the references are \<open>0, 1, \<dots>\<close> in order. An assignment
  through a reference changes the heap; printing and encoding the array read every
  element back from the heap.
\<close>

type_synonym ref = nat

definition by_reference :: "'n live_user list \<Rightarrow> 'n live_user list \<times> ref list" where
  "by_reference decoded = (decoded, [0..<length decoded])"

definition set_name :: "ref \<Rightarrow> 'n memval \<Rightarrow> 'n live_user list \<Rightarrow> 'n live_user list" where
  "set_name r v heap = heap[r := (heap ! r)\<lparr>name := v\<rparr>]"

definition set_role :: "ref \<Rightarrow> 'n memval \<Rightarrow> 'n live_user list \<Rightarrow> 'n live_user list" where
  "set_role r v heap = heap[r := (heap ! r)\<lparr>role := v\<rparr>]"

definition deref :: "'n live_user list \<Rightarrow> ref list \<Rightarrow> 'n live_user list" where
  "deref heap array = map (\<lambda>r. heap ! r) array"

section \<open>The five routes\<close>

text \<open>
  \<^verbatim>\<open>res.json(x)\<close> sends \<^verbatim>\<open>JSON.stringify(x)\<close>, and an empty body for \<^verbatim>\<open>undefined\<close>;
  \<^verbatim>\<open>res.end()\<close> sends no body.
\<close>

text \<open>\<^verbatim>\<open>app.get("/")\<close>\<close>

definition get_all :: "('n::zero) world \<Rightarrow> 'n outcome" where
  "get_all w =
     (case read_and_parse w of
        Inl e \<Rightarrow> (Inl e, w)
      | Inr array \<Rightarrow> (Inr (Json_users (JSON_stringify array)), w))"

text \<open>\<^verbatim>\<open>app.post("/")\<close>; \<open>random\<close> is the value \<^verbatim>\<open>Math.random()\<close> returns in this call.\<close>

definition post_new :: "'n \<Rightarrow> 'n req_body \<Rightarrow> ('n::zero) world \<Rightarrow> 'n outcome" where
  "post_new random body w =
     (case read_and_parse w of
        Inl e \<Rightarrow> (Inl e, w)
      | Inr array \<Rightarrow>
          (let newUser = \<lparr>user_id = JNum random, name = body_name body, role = body_role body\<rparr>;
               array' = push newUser array
           in (Inr Ended, writeFileSync (JSON_stringify array') w)))"

text \<open>\<^verbatim>\<open>app.get("/:userId")\<close>\<close>

definition get_one :: "(string \<Rightarrow> 'n option) \<Rightarrow> string \<Rightarrow> ('n::zero_neq_one) world \<Rightarrow> 'n outcome" where
  "get_one to_number userId w =
     (case read_and_parse w of
        Inl e \<Rightarrow> (Inl e, w)
      | Inr array \<Rightarrow>
          (let requestedUser = find (matches to_number userId) array
           in (Inr (Json_user (map_option stringify_object requestedUser)), w)))"

text \<open>\<^verbatim>\<open>app.put("/:userId")\<close>. Assigning to a property of \<^verbatim>\<open>undefined\<close> throws a
  \<^verbatim>\<open>TypeError\<close>, and the statements after it do not run.\<close>

definition put_user ::
  "(string \<Rightarrow> 'n option) \<Rightarrow> string \<Rightarrow> 'n req_body \<Rightarrow> ('n::zero_neq_one) world \<Rightarrow> 'n outcome" where
  "put_user to_number userId body w =
     (case read_and_parse w of
        Inl e \<Rightarrow> (Inl e, w)
      | Inr decoded \<Rightarrow>
          (let (heap, array) = by_reference decoded
           in case find (\<lambda>user. matches to_number userId (heap ! user)) array of
                None \<Rightarrow> (Inl TypeError, w)
              | Some requestedUser \<Rightarrow>
                  (let heap1 = set_name requestedUser (body_name body) heap;
                       heap2 = set_role requestedUser (body_role body) heap1;
                       w1 = console_log (deref heap2 array) w;
                       w2 = writeFileSync (JSON_stringify (deref heap2 array)) w1
                   in (Inr Ended, w2))))"

text \<open>\<^verbatim>\<open>app.delete("/:userId")\<close>\<close>

definition delete_user :: "(string \<Rightarrow> 'n option) \<Rightarrow> string \<Rightarrow> ('n::zero_neq_one) world \<Rightarrow> 'n outcome" where
  "delete_user to_number userId w =
     (case read_and_parse w of
        Inl e \<Rightarrow> (Inl e, w)
      | Inr array \<Rightarrow>
          (let deleteUserIndex = findIndex (matches to_number userId) array;
               array' = splice deleteUserIndex 1 array;
               w1 = console_log array' w;
               w2 = writeFileSync (JSON_stringify array') w1
           in (Inr Ended, w2)))"

section \<open>Sample data\<close>

text \<open>
  Records and a file holding a given array, for running the routes. \<open>bo\<close> and \<open>cy\<close>
  both answer to the path parameter \<^verbatim>\<open>2\<close>: one by its number, one by its string.
  \<open>dee\<close> and \<open>eli\<close> carry ids as \<^verbatim>\<open>Math.random()\<close> gives them.
\<close>

definition ann :: "int user" where
  "ann = \<lparr>user_id = JNum 1, name = JStr ''Ann'', role = JStr ''admin''\<rparr>"

definition bo :: "int user" where
  "bo = \<lparr>user_id = JNum 2, name = JStr ''Bo'', role = JStr ''user''\<rparr>"

definition cy :: "int user" where
  "cy = \<lparr>user_id = JStr ''2'', name = JStr ''Cy'', role = JUndefined\<rparr>"

definition dee :: "rat user" where
  "dee = \<lparr>user_id = JNum (1 / 2), name = JStr ''Dee'', role = JStr ''admin''\<rparr>"

definition eli :: "rat user" where
  "eli = \<lparr>user_id = JNum (3 / 4), name = JNull, role = JUndefined\<rparr>"

definition disk :: "'n user list \<Rightarrow> 'n world" where
  "disk array = \<lparr>data_json = Users array, writes = [], console = []\<rparr>"

section \<open>Facts about the array methods\<close>

lemma findIndex_from_no_match:
  "(\<And>x. x \<in> set xs \<Longrightarrow> \<not> P x) \<Longrightarrow> findIndex_from k P xs = - 1"
  by (induction xs arbitrary: k) simp_all

lemma findIndex_no_match:
  "(\<And>x. x \<in> set xs \<Longrightarrow> \<not> P x) \<Longrightarrow> findIndex P xs = - 1"
  unfolding findIndex_def by (rule findIndex_from_no_match)

lemma findIndex_from_first:
  "i < length xs \<Longrightarrow> P (xs ! i) \<Longrightarrow> (\<And>j. j < i \<Longrightarrow> \<not> P (xs ! j))
     \<Longrightarrow> findIndex_from k P xs = k + int i"
proof (induction xs arbitrary: k i)
  case Nil
  then show ?case by simp
next
  case (Cons x xs)
  show ?case
  proof (cases i)
    case 0
    with Cons.prems show ?thesis by simp
  next
    case (Suc m)
    have nx: "\<not> P x" using Cons.prems(3) [of 0] Suc by simp
    have "findIndex_from (k + 1) P xs = (k + 1) + int m"
    proof (rule Cons.IH)
      show "m < length xs" using Cons.prems(1) Suc by simp
      show "P (xs ! m)" using Cons.prems(2) Suc by simp
      show "\<not> P (xs ! j)" if "j < m" for j
        using Cons.prems(3) [of "Suc j"] that Suc by simp
    qed
    with nx Suc show ?thesis by simp
  qed
qed

lemma findIndex_first:
  "i < length xs \<Longrightarrow> P (xs ! i) \<Longrightarrow> (\<And>j. j < i \<Longrightarrow> \<not> P (xs ! j))
     \<Longrightarrow> findIndex P xs = int i"
  unfolding findIndex_def using findIndex_from_first [of i xs P 0] by simp

lemma splice_minus_one: "splice (- 1) 1 xs = butlast xs"
proof (cases "xs = []")
  case True
  then show ?thesis by (simp add: splice_def)
next
  case False
  then have len: "0 < length xs" by simp
  then have "splice (- 1) 1 xs = take (length xs - 1) xs @ drop (length xs) xs"
    by (simp add: splice_def Let_def nat_diff_distrib')
  then show ?thesis by (simp add: butlast_conv_take)
qed

lemma splice_at:
  "i < length xs \<Longrightarrow> splice (int i) 1 xs = take i xs @ drop (Suc i) xs"
  by (simp add: splice_def Let_def nat_add_distrib)

lemma find_none:
  "(\<And>x. x \<in> set xs \<Longrightarrow> \<not> P x) \<Longrightarrow> find P xs = None"
  by (simp add: find_None_iff)

lemma find_first:
  "i < length xs \<Longrightarrow> P (xs ! i) \<Longrightarrow> (\<And>j. j < i \<Longrightarrow> \<not> P (xs ! j))
     \<Longrightarrow> find P xs = Some (xs ! i)"
  unfolding find_Some_iff
  by (rule exI [of _ i]) simp

section \<open>Facts about encoding and decoding\<close>

lemma stringify_parse_object: "stringify_object (parse_object u) = u"
  by (simp add: stringify_object_def parse_object_def)

lemma stringify_parse: "JSON_stringify (JSON_parse doc) = doc"
  by (induction doc) (simp_all add: JSON_stringify_def JSON_parse_def stringify_parse_object)

lemma length_parse: "length (JSON_parse doc) = length doc"
  by (simp add: JSON_parse_def)

lemma nth_parse: "i < length doc \<Longrightarrow> JSON_parse doc ! i = parse_object (doc ! i)"
  by (simp add: JSON_parse_def)

lemma matches_parse_object:
  "matches to_number userId (parse_object u) = matches to_number userId u"
  by (simp add: matches_def parse_object_def)

lemma find_parse:
  "map_option stringify_object (find (matches to_number userId) (JSON_parse doc))
     = find (matches to_number userId) doc"
  by (induction doc)
     (simp_all add: JSON_parse_def matches_parse_object stringify_parse_object)

lemma findIndex_from_parse:
  "findIndex_from k (matches to_number userId) (JSON_parse doc)
     = findIndex_from k (matches to_number userId) doc"
  by (induction doc arbitrary: k) (simp_all add: JSON_parse_def matches_parse_object)

lemma findIndex_parse:
  "findIndex (matches to_number userId) (JSON_parse doc)
     = findIndex (matches to_number userId) doc"
  by (simp add: findIndex_def findIndex_from_parse)

lemma splice_parse: "splice k n (JSON_parse doc) = JSON_parse (splice k n doc)"
  by (simp add: splice_def JSON_parse_def Let_def take_map drop_map)

lemma stringify_update:
  "i < length doc \<Longrightarrow>
     JSON_stringify ((JSON_parse doc)[i := (JSON_parse doc ! i)\<lparr>name := n, role := r\<rparr>])
       = doc[i := (doc ! i)\<lparr>name := stringify_value n, role := stringify_value r\<rparr>]"
proof -
  assume i: "i < length doc"
  have "stringify_object ((parse_object (doc ! i))\<lparr>name := n, role := r\<rparr>)
          = (doc ! i)\<lparr>name := stringify_value n, role := stringify_value r\<rparr>"
    by (simp add: stringify_object_def parse_object_def)
  with i show ?thesis
    using stringify_parse [of doc]
    by (simp add: JSON_stringify_def map_update nth_parse)
qed

section \<open>Facts about references\<close>

lemma find_refs_none:
  "(\<And>x. x \<in> set xs \<Longrightarrow> \<not> P x) \<Longrightarrow> find (\<lambda>r. P (xs ! r)) [0..<length xs] = None"
  by (simp add: find_None_iff)

lemma find_refs_first:
  "i < length xs \<Longrightarrow> P (xs ! i) \<Longrightarrow> (\<And>j. j < i \<Longrightarrow> \<not> P (xs ! j))
     \<Longrightarrow> find (\<lambda>r. P (xs ! r)) [0..<length xs] = Some i"
  unfolding find_Some_iff
  by (rule exI [of _ i]) simp

lemma deref_all: "deref heap [0..<length heap] = heap"
  by (simp add: deref_def map_nth)

lemma set_fields:
  "i < length heap \<Longrightarrow>
     set_role i r (set_name i n heap) = heap[i := (heap ! i)\<lparr>name := n, role := r\<rparr>]"
  by (simp add: set_role_def set_name_def)

section \<open>The routes on a file that decodes\<close>

lemma read_users: "data_json w = Users array \<Longrightarrow> read_and_parse w = Inr (JSON_parse array)"
  by (simp add: read_and_parse_def)

lemma get_one_loaded:
  "data_json w = Users array \<Longrightarrow>
     get_one to_number userId w = (Inr (Json_user (find (matches to_number userId) array)), w)"
  by (simp add: get_one_def read_users find_parse)

lemma delete_user_loaded:
  "data_json w = Users array \<Longrightarrow>
     delete_user to_number userId w =
       (Inr Ended,
        writeFileSync (splice (findIndex (matches to_number userId) array) 1 array)
          (console_log (JSON_parse (splice (findIndex (matches to_number userId) array) 1 array)) w))"
  by (simp add: delete_user_def read_users Let_def findIndex_parse splice_parse stringify_parse)

lemma put_user_missing:
  assumes "data_json w = Users array"
    and "\<And>user. user \<in> set array \<Longrightarrow> \<not> matches to_number userId user"
  shows "put_user to_number userId body w = (Inl TypeError, w)"
proof -
  have "\<not> matches to_number userId x" if "x \<in> set (JSON_parse array)" for x
    using that assms(2) by (auto simp: JSON_parse_def matches_parse_object)
  then have "find (\<lambda>r. matches to_number userId (JSON_parse array ! r))
               [0..<length (JSON_parse array)] = None"
    by (rule find_refs_none)
  then show ?thesis
    by (simp add: put_user_def read_users [OF assms(1)] by_reference_def)
qed

lemma put_user_found:
  assumes "data_json w = Users array"
    and "i < length array"
    and "matches to_number userId (array ! i)"
    and "\<And>j. j < i \<Longrightarrow> \<not> matches to_number userId (array ! j)"
  shows "put_user to_number userId body w =
           (Inr Ended,
            writeFileSync
              (array[i := (array ! i)\<lparr>name := stringify_value (body_name body),
                                       role := stringify_value (body_role body)\<rparr>])
              (console_log
                ((JSON_parse array)[i := (JSON_parse array ! i)\<lparr>name := body_name body,
                                                                 role := body_role body\<rparr>]) w))"
proof -
  let ?heap = "JSON_parse array"
  let ?live = "?heap[i := (?heap ! i)\<lparr>name := body_name body, role := body_role body\<rparr>]"
  have i: "i < length ?heap"
    using assms(2) by (simp add: length_parse)
  have f: "find (\<lambda>r. matches to_number userId (?heap ! r)) [0..<length ?heap] = Some i"
  proof (rule find_refs_first [OF i])
    show "matches to_number userId (?heap ! i)"
      using assms(2,3) by (simp add: nth_parse matches_parse_object)
    show "\<not> matches to_number userId (?heap ! j)" if "j < i" for j
      using assms(2) assms(4) [OF that] that by (simp add: nth_parse matches_parse_object)
  qed
  have h: "set_role i (body_role body) (set_name i (body_name body) ?heap) = ?live"
    using i by (rule set_fields)
  have d: "deref ?live [0..<length ?heap] = ?live"
    using deref_all [of ?live] by simp
  have s: "JSON_stringify ?live
             = array[i := (array ! i)\<lparr>name := stringify_value (body_name body),
                                      role := stringify_value (body_role body)\<rparr>]"
    using assms(2) by (rule stringify_update)
  from f h d s show ?thesis
    by (simp add: put_user_def read_users [OF assms(1)] by_reference_def Let_def)
qed

lemma sample_ids:
  "\<not> matches decimal_to_number ''3'' ann" "\<not> matches decimal_to_number ''3'' bo"
  "\<not> matches decimal_to_number ''3'' cy" "\<not> matches decimal_to_number ''2'' ann"
  "matches decimal_to_number ''2'' bo" "matches decimal_to_number ''2'' cy"
  "matches decimal_to_number ''1'' ann"
  by (simp_all add: matches_def ann_def bo_def cy_def decimal_to_number_def)

lemma disk_fields:
  "data_json (disk array) = Users array" "writes (disk array) = []" "console (disk array) = []"
  by (simp_all add: disk_def)

section \<open>Reading\<close>

text \<open>
  C8. The list route and the get-by-identifier route never change the world: the file,
  the record of writes and the console are after the request what they were before it,
  whatever the file holds. On a file that decodes, the list route answers with the whole
  decoded array.
\<close>

theorem reads_never_mutate:
  "snd (get_all w) = w
   \<and> snd (get_one to_number userId w) = w
   \<and> (\<forall>array. data_json w = Users array \<longrightarrow> fst (get_all w) = Inr (Json_users array))"
  by (simp add: get_all_def get_one_def read_and_parse_def stringify_parse split: stored.splits)

theorem reads_never_mutate_witness:
  "data_json (disk [ann, bo]) = Users [ann, bo]
   \<and> fst (get_all (disk [ann, bo])) = Inr (Json_users [ann, bo])
   \<and> snd (get_all (disk [ann, bo])) = disk [ann, bo]
   \<and> snd (get_one decimal_to_number ''1'' (disk [ann, bo])) = disk [ann, bo]"
proof -
  have h: "data_json (disk [ann, bo]) = Users [ann, bo]"
    by (rule disk_fields)
  from reads_never_mutate [of "disk [ann, bo]" decimal_to_number "''1''"] h
  show ?thesis by simp
qed

text \<open>
  C6. On a file that decodes, the get-by-identifier route answers with the first record,
  in array order, whose id loosely equals the path parameter, and with
  \<^verbatim>\<open>undefined\<close> (an empty body) when no record's id does.
\<close>

theorem get_one_returns_first_match:
  assumes "data_json w = Users array"
  shows "((\<forall>user \<in> set array. \<not> matches to_number userId user)
            \<longrightarrow> fst (get_one to_number userId w) = Inr (Json_user None))
       \<and> (\<forall>i < length array.
            matches to_number userId (array ! i)
            \<and> (\<forall>j < i. \<not> matches to_number userId (array ! j))
            \<longrightarrow> fst (get_one to_number userId w) = Inr (Json_user (Some (array ! i))))"
proof (intro conjI impI allI)
  assume "\<forall>user \<in> set array. \<not> matches to_number userId user"
  then have "find (matches to_number userId) array = None"
    by (intro find_none) blast
  then show "fst (get_one to_number userId w) = Inr (Json_user None)"
    by (simp add: get_one_loaded [OF assms])
next
  fix i
  assume "i < length array"
    and "matches to_number userId (array ! i)
         \<and> (\<forall>j < i. \<not> matches to_number userId (array ! j))"
  then have "find (matches to_number userId) array = Some (array ! i)"
    by (intro find_first) blast+
  then show "fst (get_one to_number userId w) = Inr (Json_user (Some (array ! i)))"
    by (simp add: get_one_loaded [OF assms])
qed

theorem get_one_returns_first_match_witness:
  "data_json (disk [ann, bo, cy]) = Users [ann, bo, cy]
   \<and> \<not> matches decimal_to_number ''3'' ann
   \<and> \<not> matches decimal_to_number ''3'' bo
   \<and> \<not> matches decimal_to_number ''3'' cy
   \<and> fst (get_one decimal_to_number ''3'' (disk [ann, bo, cy])) = Inr (Json_user None)
   \<and> \<not> matches decimal_to_number ''2'' ann
   \<and> matches decimal_to_number ''2'' bo
   \<and> matches decimal_to_number ''2'' cy
   \<and> fst (get_one decimal_to_number ''2'' (disk [ann, bo, cy])) = Inr (Json_user (Some bo))"
proof -
  have h: "data_json (disk [ann, bo, cy]) = Users [ann, bo, cy]"
    by (rule disk_fields)
  have n: "\<forall>user \<in> set [ann, bo, cy]. \<not> matches decimal_to_number ''3'' user"
    by (simp add: sample_ids)
  have l: "(1::nat) < length [ann, bo, cy]"
    by simp
  have m: "matches decimal_to_number ''2'' ([ann, bo, cy] ! 1)
           \<and> (\<forall>j < 1. \<not> matches decimal_to_number ''2'' ([ann, bo, cy] ! j))"
    by (simp add: sample_ids)
  note t = get_one_returns_first_match [OF h]
  have r3: "fst (get_one decimal_to_number ''3'' (disk [ann, bo, cy])) = Inr (Json_user None)"
    using t [of decimal_to_number "''3''", THEN conjunct1] n by (rule mp)
  have r2: "fst (get_one decimal_to_number ''2'' (disk [ann, bo, cy]))
              = Inr (Json_user (Some ([ann, bo, cy] ! 1)))"
    using t [of decimal_to_number "''2''", THEN conjunct2, rule_format, OF l m] .
  from h r3 r2 show ?thesis by (simp add: sample_ids)
qed

section \<open>Creating\<close>

text \<open>
  C5, as the specification states it: after a create the stored array is one longer, the
  new record stands at its end, its name and role are the submitted values verbatim and
  its id is the number the random generator returned. A body whose name is a number
  literal beyond the range of a double reaches the handler as an infinity, and
  \<^verbatim>\<open>JSON.stringify\<close> stores \<^verbatim>\<open>null\<close> for it: the stored name is not the submitted value.
\<close>

theorem post_new_verbatim_counterexample:
  "data_json (snd (post_new (1 / 4)
       \<lparr>body_name = PosInfinity, body_role = Plain (JStr ''user'')\<rparr> (disk [dee])))
     = Users [dee, \<lparr>user_id = JNum (1 / 4), name = JNull, role = JStr ''user''\<rparr>]
   \<and> Plain JNull \<noteq> (PosInfinity :: rat memval)"
  by (simp add: post_new_def read_and_parse_def disk_def push_def writeFileSync_def
      JSON_parse_def JSON_stringify_def parse_object_def stringify_object_def dee_def Let_def)

text \<open>
  C5, amended: on a file that decodes, the create route appends one record at the end of
  the array and writes the longer array to the file: the length grows by one, the records
  that were there stay in place, the new record carries as its id the number the random
  generator returned, and as its name and role the submitted values as the JSON encoding
  keeps them: verbatim for a string, a boolean, \<^verbatim>\<open>null\<close>, a finite number and a missing
  (\<^verbatim>\<open>undefined\<close>) value, \<^verbatim>\<open>null\<close> for a number that is not finite and \<open>0\<close> for
  negative zero.
\<close>

theorem post_new_appends_record:
  assumes "data_json w = Users array"
  shows "fst (post_new random body w) = Inr Ended
       \<and> data_json (snd (post_new random body w)) =
           Users (array @ [\<lparr>user_id = JNum random, name = stringify_value (body_name body),
                            role = stringify_value (body_role body)\<rparr>])
       \<and> writes (snd (post_new random body w)) =
           writes w @ [array @ [\<lparr>user_id = JNum random, name = stringify_value (body_name body),
                                 role = stringify_value (body_role body)\<rparr>]]
       \<and> length (array @ [\<lparr>user_id = JNum random, name = stringify_value (body_name body),
                            role = stringify_value (body_role body)\<rparr>])
           = length array + 1"
  using stringify_parse [of array]
  by (simp add: post_new_def read_users [OF assms] push_def writeFileSync_def Let_def
      JSON_stringify_def stringify_object_def)

theorem post_new_appends_record_witness:
  "data_json (disk [dee, eli]) = Users [dee, eli]
   \<and> fst (post_new (1 / 4) \<lparr>body_name = Plain (JStr ''Bo''), body_role = Plain (JStr ''user'')\<rparr>
         (disk [dee, eli])) = Inr Ended
   \<and> data_json (snd (post_new (1 / 4)
         \<lparr>body_name = Plain (JStr ''Bo''), body_role = Plain (JStr ''user'')\<rparr> (disk [dee, eli])))
       = Users [dee, eli, \<lparr>user_id = JNum (1 / 4), name = JStr ''Bo'', role = JStr ''user''\<rparr>]
   \<and> data_json (snd (post_new (1 / 4)
         \<lparr>body_name = Plain JUndefined, body_role = NegZero\<rparr> (disk [dee, eli])))
       = Users [dee, eli, \<lparr>user_id = JNum (1 / 4), name = JUndefined, role = JNum 0\<rparr>]
   \<and> data_json (disk ([] :: rat user list)) = Users []
   \<and> data_json (snd (post_new (1 / 4 :: rat)
         \<lparr>body_name = Plain (JStr ''Bo''), body_role = Plain (JStr ''user'')\<rparr> (disk [])))
       = Users [\<lparr>user_id = JNum (1 / 4), name = JStr ''Bo'', role = JStr ''user''\<rparr>]"
proof -
  have h: "data_json (disk [dee, eli]) = Users [dee, eli]"
    by (rule disk_fields)
  have e: "data_json (disk ([] :: rat user list)) = Users []"
    by (rule disk_fields)
  from post_new_appends_record [OF h, of "1 / 4"
        "\<lparr>body_name = Plain (JStr ''Bo''), body_role = Plain (JStr ''user'')\<rparr>"]
    post_new_appends_record [OF h, of "1 / 4" "\<lparr>body_name = Plain JUndefined, body_role = NegZero\<rparr>"]
    post_new_appends_record [OF e, of "1 / 4"
        "\<lparr>body_name = Plain (JStr ''Bo''), body_role = Plain (JStr ''user'')\<rparr>"]
    h e
  show ?thesis by simp
qed

section \<open>Updating\<close>

text \<open>
  C7, as the specification states it: an update for an identifier some record answers to
  overwrites that record's name and role with the submitted values and nothing else, so
  that a get right after returns the new name and role. With \<^verbatim>\<open>PUT /2\<close> and a body
  whose name reached the handler as an infinity, the file and the get right after carry
  \<^verbatim>\<open>null\<close> as the name, not the submitted value.
\<close>

theorem put_user_verbatim_counterexample:
  "data_json (snd (put_user decimal_to_number ''2''
       \<lparr>body_name = PosInfinity, body_role = Plain (JStr ''admin'')\<rparr> (disk [ann, bo, cy])))
     = Users [ann, \<lparr>user_id = JNum 2, name = JNull, role = JStr ''admin''\<rparr>, cy]
   \<and> fst (get_one decimal_to_number ''2'' (snd (put_user decimal_to_number ''2''
       \<lparr>body_name = PosInfinity, body_role = Plain (JStr ''admin'')\<rparr> (disk [ann, bo, cy]))))
     = Inr (Json_user (Some \<lparr>user_id = JNum 2, name = JNull, role = JStr ''admin''\<rparr>))
   \<and> Plain JNull \<noteq> (PosInfinity :: int memval)"
proof -
  have h: "data_json (disk [ann, bo, cy]) = Users [ann, bo, cy]"
    by (rule disk_fields)
  have l: "(1::nat) < length [ann, bo, cy]"
    by simp
  have m: "matches decimal_to_number ''2'' ([ann, bo, cy] ! 1)"
    by (simp add: sample_ids)
  have f: "\<not> matches decimal_to_number ''2'' ([ann, bo, cy] ! j)" if "j < 1" for j
    using that by (simp add: sample_ids)
  have b: "bo\<lparr>name := JNull, role := JStr ''admin''\<rparr>
             = \<lparr>user_id = JNum 2, name = JNull, role = JStr ''admin''\<rparr>"
    by (simp add: bo_def)
  have new: "matches decimal_to_number ''2'' \<lparr>user_id = JNum 2, name = JNull, role = JStr ''admin''\<rparr>"
    by (simp add: matches_def decimal_to_number_def)
  show ?thesis
    using put_user_found [OF h l m f, of "\<lparr>body_name = PosInfinity, body_role = Plain (JStr ''admin'')\<rparr>"]
    by (simp add: b new get_one_def read_and_parse_def writeFileSync_def console_log_def disk_def
        find_parse sample_ids)
qed

text \<open>
  C7, amended: on a file that decodes and holds a record whose id loosely equals the path
  parameter, the update route overwrites the name and the role of the first such record
  and nothing else, with the submitted values as the JSON encoding keeps them (verbatim,
  except \<^verbatim>\<open>null\<close> for a number that is not finite and \<open>0\<close> for negative zero): that
  record keeps its id, every other record is as it was, the array so changed is written
  to the file, and a get-by-identifier with the same parameter right after answers with
  the record carrying those name and role values and the old id.
\<close>

theorem put_user_overwrites_name_and_role:
  assumes "data_json w = Users array"
    and "i < length array"
    and "matches to_number userId (array ! i)"
    and "\<forall>j < i. \<not> matches to_number userId (array ! j)"
  shows "fst (put_user to_number userId body w) = Inr Ended
       \<and> data_json (snd (put_user to_number userId body w)) =
           Users (array[i := (array ! i)\<lparr>name := stringify_value (body_name body),
                                          role := stringify_value (body_role body)\<rparr>])
       \<and> writes (snd (put_user to_number userId body w)) =
           writes w @ [array[i := (array ! i)\<lparr>name := stringify_value (body_name body),
                                               role := stringify_value (body_role body)\<rparr>]]
       \<and> get_one to_number userId (snd (put_user to_number userId body w)) =
           (Inr (Json_user (Some \<lparr>user_id = user_id (array ! i),
                                   name = stringify_value (body_name body),
                                   role = stringify_value (body_role body)\<rparr>)),
            snd (put_user to_number userId body w))"
proof -
  let ?new = "array[i := (array ! i)\<lparr>name := stringify_value (body_name body),
                                       role := stringify_value (body_role body)\<rparr>]"
  let ?live = "(JSON_parse array)[i := (JSON_parse array ! i)\<lparr>name := body_name body,
                                                                role := body_role body\<rparr>]"
  let ?w' = "writeFileSync ?new (console_log ?live w)"
  have put: "put_user to_number userId body w = (Inr Ended, ?w')"
    using assms by (intro put_user_found) blast+
  have written: "data_json ?w' = Users ?new"
    by (simp add: writeFileSync_def)
  have at_i: "?new ! i = \<lparr>user_id = user_id (array ! i),
                           name = stringify_value (body_name body),
                           role = stringify_value (body_role body)\<rparr>"
    using assms(2) by simp
  have "find (matches to_number userId) ?new = Some (?new ! i)"
  proof (rule find_first)
    show "i < length ?new" using assms(2) by simp
    show "matches to_number userId (?new ! i)"
      using assms(2,3) by (simp add: matches_def)
    show "\<not> matches to_number userId (?new ! j)" if "j < i" for j
      using assms(4) that by simp
  qed
  with at_i have "get_one to_number userId ?w' =
      (Inr (Json_user (Some \<lparr>user_id = user_id (array ! i),
                              name = stringify_value (body_name body),
                              role = stringify_value (body_role body)\<rparr>)), ?w')"
    by (simp add: get_one_loaded [OF written])
  with put show ?thesis
    by (simp add: writeFileSync_def console_log_def)
qed

theorem put_user_overwrites_name_and_role_witness:
  "data_json (disk [ann, bo, cy]) = Users [ann, bo, cy]
   \<and> (1::nat) < length [ann, bo, cy]
   \<and> matches decimal_to_number ''2'' ([ann, bo, cy] ! 1)
   \<and> \<not> matches decimal_to_number ''2'' ([ann, bo, cy] ! 0)
   \<and> data_json (snd (put_user decimal_to_number ''2''
         \<lparr>body_name = Plain (JStr ''Bea''), body_role = Plain (JStr ''admin'')\<rparr>
         (disk [ann, bo, cy])))
       = Users [ann, \<lparr>user_id = JNum 2, name = JStr ''Bea'', role = JStr ''admin''\<rparr>, cy]
   \<and> fst (get_one decimal_to_number ''2'' (snd (put_user decimal_to_number ''2''
         \<lparr>body_name = Plain (JStr ''Bea''), body_role = Plain (JStr ''admin'')\<rparr>
         (disk [ann, bo, cy]))))
       = Inr (Json_user (Some \<lparr>user_id = JNum 2, name = JStr ''Bea'', role = JStr ''admin''\<rparr>))"
proof -
  have h: "data_json (disk [ann, bo, cy]) = Users [ann, bo, cy]"
    by (rule disk_fields)
  have l: "(1::nat) < length [ann, bo, cy]"
    by simp
  have m: "matches decimal_to_number ''2'' ([ann, bo, cy] ! 1)"
    by (simp add: sample_ids)
  have f: "\<forall>j < 1. \<not> matches decimal_to_number ''2'' ([ann, bo, cy] ! j)"
    by (simp add: sample_ids)
  have b: "bo\<lparr>name := JStr ''Bea'', role := JStr ''admin''\<rparr>
             = \<lparr>user_id = JNum 2, name = JStr ''Bea'', role = JStr ''admin''\<rparr>"
       "user_id bo = JNum 2"
    by (simp_all add: bo_def)
  from put_user_overwrites_name_and_role [OF h l m f,
      of "\<lparr>body_name = Plain (JStr ''Bea''), body_role = Plain (JStr ''admin'')\<rparr>"] h b
  show ?thesis by (simp add: sample_ids)
qed

text \<open>
  C4. On a file that decodes and holds no record whose id loosely equals the path
  parameter, the update route throws a \<^verbatim>\<open>TypeError\<close> at the assignment to a field of
  \<^verbatim>\<open>undefined\<close>, before the write: the world, and with it the file, is left as it was.
\<close>

theorem put_user_missing_throws:
  assumes "data_json w = Users array"
    and "\<forall>user \<in> set array. \<not> matches to_number userId user"
  shows "put_user to_number userId body w = (Inl TypeError, w)"
  using assms by (intro put_user_missing) blast+

theorem put_user_missing_throws_witness:
  "data_json (disk [ann, bo]) = Users [ann, bo]
   \<and> \<not> matches decimal_to_number ''3'' ann
   \<and> \<not> matches decimal_to_number ''3'' bo
   \<and> put_user decimal_to_number ''3'' \<lparr>body_name = Plain (JStr ''Cy''), body_role = Plain (JStr ''user'')\<rparr>
         (disk [ann, bo]) = (Inl TypeError, disk [ann, bo])"
proof -
  have h1: "data_json (disk [ann, bo]) = Users [ann, bo]"
    by (rule disk_fields)
  have h2: "\<forall>user \<in> set [ann, bo]. \<not> matches decimal_to_number ''3'' user"
    by (simp add: sample_ids)
  from put_user_missing_throws [OF h1 h2] h1 show ?thesis
    by (simp add: sample_ids)
qed

text \<open>
  C3, as the specification states it: when no record's id loosely equals the path
  parameter, the update route does nothing to the array, still writes the unchanged array
  to the file and ends the response with success. On the file holding only \<open>ann\<close> and
  the request \<^verbatim>\<open>PUT /2\<close> the route does not end with success, and the array is not
  written.
\<close>

theorem put_user_missing_counterexample:
  "\<not> matches decimal_to_number ''2'' ann
   \<and> fst (put_user decimal_to_number ''2'' \<lparr>body_name = Plain (JStr ''Cy''), body_role = Plain (JStr ''user'')\<rparr>
         (disk [ann])) \<noteq> Inr Ended
   \<and> writes (snd (put_user decimal_to_number ''2''
         \<lparr>body_name = Plain (JStr ''Cy''), body_role = Plain (JStr ''user'')\<rparr> (disk [ann])))
       \<noteq> writes (disk [ann]) @ [[ann]]"
  by (simp add: put_user_def read_and_parse_def disk_def JSON_parse_def by_reference_def
      matches_parse_object sample_ids)

text \<open>
  C3, amended: when no record's id loosely equals the path parameter, the update route
  leaves the stored array, and so its length, unchanged, but it neither writes the array
  again nor ends the response with success: it stops with a \<^verbatim>\<open>TypeError\<close> at the first
  field assignment.
\<close>

theorem put_user_missing_leaves_file:
  assumes "data_json w = Users array"
    and "\<forall>user \<in> set array. \<not> matches to_number userId user"
  shows "fst (put_user to_number userId body w) = Inl TypeError
       \<and> fst (put_user to_number userId body w) \<noteq> Inr Ended
       \<and> writes (snd (put_user to_number userId body w)) = writes w
       \<and> data_json (snd (put_user to_number userId body w)) = Users array
       \<and> (\<forall>array'. data_json (snd (put_user to_number userId body w)) = Users array'
             \<longrightarrow> length array' = length array)"
proof -
  have "put_user to_number userId body w = (Inl TypeError, w)"
    using assms by (intro put_user_missing) blast+
  then show ?thesis using assms(1) by simp
qed

theorem put_user_missing_leaves_file_witness:
  "data_json (disk [ann]) = Users [ann]
   \<and> \<not> matches decimal_to_number ''2'' ann
   \<and> fst (put_user decimal_to_number ''2'' \<lparr>body_name = Plain (JStr ''Cy''), body_role = Plain (JStr ''user'')\<rparr>
         (disk [ann])) = Inl TypeError
   \<and> writes (snd (put_user decimal_to_number ''2''
         \<lparr>body_name = Plain (JStr ''Cy''), body_role = Plain (JStr ''user'')\<rparr> (disk [ann]))) = []
   \<and> data_json (snd (put_user decimal_to_number ''2''
         \<lparr>body_name = Plain (JStr ''Cy''), body_role = Plain (JStr ''user'')\<rparr> (disk [ann]))) = Users [ann]"
proof -
  have h1: "data_json (disk [ann]) = Users [ann]"
    by (rule disk_fields)
  have h2: "\<forall>user \<in> set [ann]. \<not> matches decimal_to_number ''2'' user"
    by (simp add: sample_ids)
  have w: "writes (disk [ann]) = []"
    by (rule disk_fields)
  from put_user_missing_leaves_file [OF h1 h2] h1 w show ?thesis
    by (simp add: sample_ids)
qed

section \<open>Deleting\<close>

text \<open>
  C9. On a file that decodes and holds a record whose id loosely equals the path
  parameter, the delete route removes exactly one element, the first such record, at the
  index \<^verbatim>\<open>findIndex\<close> found; the records before it and after it keep their order, and
  the shorter array is written to the file.
\<close>

theorem delete_user_removes_first_match:
  assumes "data_json w = Users array"
    and "i < length array"
    and "matches to_number userId (array ! i)"
    and "\<forall>j < i. \<not> matches to_number userId (array ! j)"
  shows "findIndex (matches to_number userId) array = int i
       \<and> fst (delete_user to_number userId w) = Inr Ended
       \<and> data_json (snd (delete_user to_number userId w)) = Users (take i array @ drop (Suc i) array)
       \<and> writes (snd (delete_user to_number userId w)) = writes w @ [take i array @ drop (Suc i) array]
       \<and> length (take i array @ drop (Suc i) array) + 1 = length array"
proof -
  have idx: "findIndex (matches to_number userId) array = int i"
    using assms(2-4) by (intro findIndex_first) blast+
  show ?thesis
    using assms(2)
    by (simp add: delete_user_loaded [OF assms(1)] idx splice_at
        writeFileSync_def console_log_def)
qed

theorem delete_user_removes_first_match_witness:
  "data_json (disk [ann, bo, cy]) = Users [ann, bo, cy]
   \<and> (1::nat) < length [ann, bo, cy]
   \<and> matches decimal_to_number ''2'' ([ann, bo, cy] ! 1)
   \<and> \<not> matches decimal_to_number ''2'' ([ann, bo, cy] ! 0)
   \<and> data_json (snd (delete_user decimal_to_number ''2'' (disk [ann, bo, cy]))) = Users [ann, cy]
   \<and> data_json (disk [ann]) = Users [ann]
   \<and> matches decimal_to_number ''1'' ([ann] ! 0)
   \<and> data_json (snd (delete_user decimal_to_number ''1'' (disk [ann]))) = Users []"
proof -
  have h: "data_json (disk [ann, bo, cy]) = Users [ann, bo, cy]"
    by (rule disk_fields)
  have l: "(1::nat) < length [ann, bo, cy]"
    by simp
  have m: "matches decimal_to_number ''2'' ([ann, bo, cy] ! 1)"
    by (simp add: sample_ids)
  have f: "\<forall>j < 1. \<not> matches decimal_to_number ''2'' ([ann, bo, cy] ! j)"
    by (simp add: sample_ids)
  have h': "data_json (disk [ann]) = Users [ann]"
    by (rule disk_fields)
  have l': "(0::nat) < length [ann]"
    by simp
  have m': "matches decimal_to_number ''1'' ([ann] ! 0)"
    by (simp add: sample_ids)
  have f': "\<forall>j < 0. \<not> matches decimal_to_number ''1'' ([ann] ! j)"
    by simp
  from delete_user_removes_first_match [OF h l m f]
    delete_user_removes_first_match [OF h' l' m' f'] h h'
  show ?thesis
    by (simp add: sample_ids)
qed

text \<open>
  C1. On a file that decodes to a non-empty array in which no record's id loosely equals
  the path parameter, \<^verbatim>\<open>findIndex\<close> returns \<open>-1\<close>, \<^verbatim>\<open>splice(-1, 1)\<close> takes one element
  off the end, and the delete route writes the array without its last record to the file.
\<close>

theorem delete_user_missing_removes_last:
  assumes "data_json w = Users array"
    and "array \<noteq> []"
    and "\<forall>user \<in> set array. \<not> matches to_number userId user"
  shows "findIndex (matches to_number userId) array = - 1
       \<and> splice (- 1) 1 array = butlast array
       \<and> fst (delete_user to_number userId w) = Inr Ended
       \<and> data_json (snd (delete_user to_number userId w)) = Users (butlast array)
       \<and> writes (snd (delete_user to_number userId w)) = writes w @ [butlast array]
       \<and> butlast array @ [last array] = array"
proof -
  have idx: "findIndex (matches to_number userId) array = - 1"
    using assms(3) by (intro findIndex_no_match) blast
  show ?thesis
    using assms(2)
    by (simp add: delete_user_loaded [OF assms(1)] idx splice_minus_one
        writeFileSync_def console_log_def)
qed

theorem delete_user_missing_removes_last_witness:
  "data_json (disk [ann, bo]) = Users [ann, bo]
   \<and> [ann, bo] \<noteq> []
   \<and> \<not> matches decimal_to_number ''3'' ann
   \<and> \<not> matches decimal_to_number ''3'' bo
   \<and> data_json (snd (delete_user decimal_to_number ''3'' (disk [ann, bo]))) = Users [ann]
   \<and> writes (snd (delete_user decimal_to_number ''3'' (disk [ann, bo]))) = [[ann]]"
proof -
  have h1: "data_json (disk [ann, bo]) = Users [ann, bo]"
    by (rule disk_fields)
  have h2: "[ann, bo] \<noteq> []"
    by simp
  have h3: "\<forall>user \<in> set [ann, bo]. \<not> matches decimal_to_number ''3'' user"
    by (simp add: sample_ids)
  have w: "writes (disk [ann, bo]) = []"
    by (rule disk_fields)
  from delete_user_missing_removes_last [OF h1 h2 h3] h1 w show ?thesis
    by (simp add: sample_ids)
qed

text \<open>
  C2 says that a delete for an identifier no record answers to leaves the length of the
  stored array alone. The route's own comment reads \<^verbatim>\<open>start at the index of the target
  element and delete 1 thing (the target element)\<close>; with no target element it deletes the
  last record all the same. On the file holding only \<open>ann\<close>, \<^verbatim>\<open>DELETE /2\<close> leaves the
  empty array.
\<close>

theorem delete_user_missing_shrinks_example:
  "\<not> matches decimal_to_number ''2'' ann
   \<and> data_json (disk [ann]) = Users [ann]
   \<and> data_json (snd (delete_user decimal_to_number ''2'' (disk [ann]))) = Users []
   \<and> length ([] :: int user list) \<noteq> length [ann]"
  by (simp add: delete_user_def read_and_parse_def disk_def findIndex_def splice_def
      writeFileSync_def console_log_def JSON_parse_def JSON_stringify_def
      matches_parse_object sample_ids)

text \<open>
  C10. On a file that decodes to the empty array, whatever the path parameter,
  \<^verbatim>\<open>findIndex\<close> returns \<open>-1\<close>, \<^verbatim>\<open>splice(-1, 1)\<close> removes nothing from the empty array,
  and the delete route writes the empty array back.
\<close>

theorem delete_user_on_empty:
  fixes w :: "('n::zero_neq_one) world"
  assumes "data_json w = Users []"
  shows "findIndex (matches to_number userId) ([] :: 'n user list) = - 1
       \<and> splice (- 1) 1 ([] :: 'n user list) = []
       \<and> fst (delete_user to_number userId w) = Inr Ended
       \<and> data_json (snd (delete_user to_number userId w)) = Users []
       \<and> writes (snd (delete_user to_number userId w)) = writes w @ [[]]"
  using assms
  by (simp add: delete_user_loaded findIndex_def splice_def writeFileSync_def console_log_def)

theorem delete_user_on_empty_witness:
  "data_json (disk ([] :: int user list)) = Users []
   \<and> fst (delete_user decimal_to_number ''1'' (disk ([] :: int user list))) = Inr Ended
   \<and> data_json (snd (delete_user decimal_to_number ''1'' (disk ([] :: int user list)))) = Users []
   \<and> writes (snd (delete_user decimal_to_number ''1'' (disk ([] :: int user list)))) = [[]]"
proof -
  have h: "data_json (disk ([] :: int user list)) = Users []"
    by (rule disk_fields)
  have w: "writes (disk ([] :: int user list)) = []"
    by (rule disk_fields)
  from delete_user_on_empty [OF h, of decimal_to_number "''1''"] h w show ?thesis
    by simp
qed

end
